theory Spec2Isabelle
  imports Main "HOL-Library.Sublist"
begin

section \<open>Text helpers of the Python runtime\<close>

text \<open>
  Python strings are modelled as \<^typ>\<open>string\<close>, read as ASCII text: the case mappings
  touch the 26 letters only, the white space of \<open>str.strip\<close> is the ASCII part of
  \<open>str.isspace\<close> (codes 9 to 13, 28 to 31 and 32), and \<open>\d\<close> is one of \<open>0\<close> to \<open>9\<close>.
  A character outside the ASCII range has no case, is no space and is no digit here.
\<close>

definition upper_char :: "char \<Rightarrow> char" where
  "upper_char c =
     (let n = (of_char c :: nat) in if 97 \<le> n \<and> n \<le> 122 then char_of (n - 32) else c)"

definition lower_char :: "char \<Rightarrow> char" where
  "lower_char c =
     (let n = (of_char c :: nat) in if 65 \<le> n \<and> n \<le> 90 then char_of (n + 32) else c)"

definition upper :: "string \<Rightarrow> string" where
  "upper s = map upper_char s"

definition lower :: "string \<Rightarrow> string" where
  "lower s = map lower_char s"

definition isspace :: "char \<Rightarrow> bool" where
  "isspace c =
     (let n = (of_char c :: nat) in (9 \<le> n \<and> n \<le> 13) \<or> (28 \<le> n \<and> n \<le> 32))"

definition isdigit :: "char \<Rightarrow> bool" where
  "isdigit c = (let n = (of_char c :: nat) in 48 \<le> n \<and> n \<le> 57)"

definition strip :: "string \<Rightarrow> string" where
  "strip s = rev (dropWhile isspace (rev (dropWhile isspace s)))"

section \<open>The CSV parser of related topics\<close>

text \<open>
  \<open>value_token s\<close> says that the whole of \<open>s\<close> matches the group
  \<^verbatim>\<open>(\+?\d+%?|Breakout)\<close> of the pattern in \<open>_parse_related_topics_csv\<close>: an optional
  plus sign, one digit or more, an optional percent sign; or the word \<open>Breakout\<close>.
\<close>

definition value_token :: "string \<Rightarrow> bool" where
  "value_token s =
     (s = ''Breakout'' \<or>
      (let s1 = (if s \<noteq> [] \<and> hd s = CHR ''+'' then tl s else s);
           s2 = (if s1 \<noteq> [] \<and> last s1 = CHR ''%'' then butlast s1 else s1)
       in s2 \<noteq> [] \<and> list_all isdigit s2))"

text \<open>
  \<open>sub_value_suffix row\<close> is \<^verbatim>\<open>re.sub(r',(\+?\d+%?|Breakout)$', '', row)\<close>. The scan goes
  from left to right as the regular expression engine does; a match starts at a comma and
  ends where \<^verbatim>\<open>$\<close> holds, which without the MULTILINE flag is the end of the string or the
  place just before a newline that ends the string. What follows the first match is empty
  or that newline, so there is never a second match.
\<close>

fun sub_value_suffix :: "string \<Rightarrow> string" where
  "sub_value_suffix [] = []"
| "sub_value_suffix (c # cs) =
     (if c = CHR '','' \<and> value_token cs then []
      else if c = CHR '','' \<and> cs \<noteq> [] \<and> last cs = CHR 0x0A \<and> value_token (butlast cs)
        then [CHR 0x0A]
      else c # sub_value_suffix cs)"

text \<open>
  The dictionary \<^verbatim>\<open>{"top": [], "rising": []}\<close> has the same two keys throughout, so it
  is a record; \<open>current_section\<close> is \<open>None\<close> or one of the two keys.
\<close>

record trend_set =
  top_trends :: "string list"
  rising_trends :: "string list"

datatype section_key = Top | Rising

definition no_trends :: trend_set where
  "no_trends = \<lparr>top_trends = [], rising_trends = []\<rparr>"

text \<open>\<^verbatim>\<open>trends[current_section].append(topic)\<close>\<close>

fun append_topic :: "section_key \<Rightarrow> string \<Rightarrow> trend_set \<Rightarrow> trend_set" where
  "append_topic Top topic trends = trends\<lparr>top_trends := top_trends trends @ [topic]\<rparr>"
| "append_topic Rising topic trends = trends\<lparr>rising_trends := rising_trends trends @ [topic]\<rparr>"

text \<open>
  One turn of the loop over \<open>csv_data\<close>, on the pair of the dictionary built so far and the
  section cursor. Each \<^verbatim>\<open>continue\<close> returns the state as it is. The body of the
  \<^verbatim>\<open>try\<close> calls \<open>re.sub\<close>, \<open>str.strip\<close> and \<open>list.append\<close> on a string, none of which
  raises, so the \<^verbatim>\<open>except\<close> branch has no counterpart.
\<close>

definition parse_row :: "trend_set \<times> section_key option \<Rightarrow> string \<Rightarrow> trend_set \<times> section_key option" where
  "parse_row st row =
     (case st of (trends, current_section) \<Rightarrow>
        if row = [] then st
        else if upper row = ''TOP'' then (trends, Some Top)
        else if upper row = ''RISING'' then (trends, Some Rising)
        else if CHR '':'' \<in> set row \<or> current_section = None then st
        else (case current_section of
                None \<Rightarrow> st
              | Some sec \<Rightarrow>
                  (let topic = strip (sub_value_suffix row)
                   in if topic \<noteq> [] then (append_topic sec topic trends, current_section)
                      else st)))"

text \<open>
  \<open>_parse_related_topics_csv\<close>. The argument is \<open>None\<close> for a missing value; \<^verbatim>\<open>not csv_data\<close>
  holds for \<open>None\<close> and for the empty list.
\<close>

definition parse_related_topics_csv :: "string list option \<Rightarrow> trend_set" where
  "parse_related_topics_csv csv_data =
     (case csv_data of
        None \<Rightarrow> no_trends
      | Some rows \<Rightarrow>
          if rows = [] then no_trends
          else fst (foldl parse_row (no_trends, None) rows))"

section \<open>Merging the trend sources\<close>

text \<open>
  The body of the inner loop of \<open>generate_viral_angle\<close>, on the pair \<open>(merged, seen)\<close>.
\<close>

definition merge_trend :: "string list \<times> string set \<Rightarrow> string \<Rightarrow> string list \<times> string set" where
  "merge_trend st trend =
     (case st of (merged, seen) \<Rightarrow>
        if lower trend \<notin> seen then (merged @ [trend], insert (lower trend) seen)
        else (merged, seen))"

text \<open>
  The two nested loops over \<^verbatim>\<open>[rising, top, global_trends]\<close>, and the slice
  \<^verbatim>\<open>merged[:25]\<close>.
\<close>

definition merge_trends :: "string list \<Rightarrow> string list \<Rightarrow> string list \<Rightarrow> string list" where
  "merge_trends rising top_section global_trends =
     fst (foldl (foldl merge_trend) ([], {}) [rising, top_section, global_trends])"

definition trend_candidates :: "string list \<Rightarrow> string list \<Rightarrow> string list \<Rightarrow> string list" where
  "trend_candidates rising top_section global_trends =
     take 25 (merge_trends rising top_section global_trends)"

section \<open>Values exchanged with the outside\<close>

text \<open>
  A decoded JSON value as Python holds it. A \<open>JObject\<close> lists the items of a dict in
  insertion order, each key once. Numbers are the integers.
\<close>

datatype json =
    JNull
  | JBool bool
  | JInt int
  | JString string
  | JArray "json list"
  | JObject "(string \<times> json) list"

text \<open>
  What a call into a library gives: the value it returns, or the text \<open>str(e)\<close> of the
  exception it raises.
\<close>

datatype 'a outcome = Raised string | Returned 'a

datatype http_error = HTTPException nat string

fun type_name :: "json \<Rightarrow> string" where
  "type_name JNull = ''NoneType''"
| "type_name (JBool b) = ''bool''"
| "type_name (JInt n) = ''int''"
| "type_name (JString s) = ''str''"
| "type_name (JArray xs) = ''list''"
| "type_name (JObject items) = ''dict''"

text \<open>The truth value Python gives a decoded value in \<^verbatim>\<open>if v\<close> and \<^verbatim>\<open>not v\<close>.\<close>

fun truthy :: "json \<Rightarrow> bool" where
  "truthy JNull = False"
| "truthy (JBool b) = b"
| "truthy (JInt n) = (n \<noteq> 0)"
| "truthy (JString s) = (s \<noteq> [])"
| "truthy (JArray xs) = (xs \<noteq> [])"
| "truthy (JObject items) = (items \<noteq> [])"

definition attribute_error :: "json \<Rightarrow> string \<Rightarrow> string" where
  "attribute_error v attr =
     [CHR 0x27] @ type_name v @ [CHR 0x27] @ '' object has no attribute '' @
     [CHR 0x27] @ attr @ [CHR 0x27]"

text \<open>\<^verbatim>\<open>v.get(key, default)\<close>: only a dict has the method.\<close>

definition dict_get :: "json \<Rightarrow> string \<Rightarrow> json \<Rightarrow> json outcome" where
  "dict_get v key dflt =
     (case v of
        JObject items \<Rightarrow> Returned (case map_of items key of None \<Rightarrow> dflt | Some x \<Rightarrow> x)
      | _ \<Rightarrow> Raised (attribute_error v ''get''))"

text \<open>\<^verbatim>\<open>sep.join(parts)\<close>\<close>

fun join_str :: "string \<Rightarrow> string list \<Rightarrow> string" where
  "join_str sep [] = []"
| "join_str sep [x] = x"
| "join_str sep (x # y # ys) = x @ sep @ join_str sep (y # ys)"

section \<open>The keyword\<close>

definition keyword_prompt :: "string \<Rightarrow> string" where
  \<open>keyword_prompt video_idea =
     join_str [CHR 0x0A]
      ['''',
       ''        Analyze the following video idea and extract the single most important noun or short noun phrase (2-3 words max) that represents the core subject. This keyword will be used to search Google Trends.'',
       '''',
       ''        Your response MUST be only the keyword phrase itself, in lowercase, with no explanation, punctuation, or quotation marks.'',
       '''',
       ''        - Idea: "A fun 8s TikTok about why iced coffee is better than hot coffee"'',
       ''        - Your Response: iced coffee'',
       '''',
       ''        - Idea: "Make a tutorial on how to bake sourdough bread"'',
       ''        - Your Response: sourdough bread'',
       '''',
       ''        - Idea: "A review of the new Tesla Cybertruck"'',
       ''        - Your Response: tesla cybertruck'',
       '''',
       ''        - Idea: "'' @ video_idea @ ''"'',
       ''        - Your Response:'',
       ''        '']\<close>

definition keyword_failed :: "string \<Rightarrow> http_error" where
  "keyword_failed e = HTTPException 500 (''Failed to extract keyword: '' @ e)"

text \<open>
  \<open>extract_keyword\<close>. \<open>utility_model prompt\<close> is the outcome of \<open>generate_content\<close> and of
  the reading of \<open>response.text\<close>. The \<open>ValueError\<close> raised on an empty or long keyword is
  caught by the handler of the same \<^verbatim>\<open>try\<close>.
\<close>

definition extract_keyword :: "(string \<Rightarrow> string outcome) \<Rightarrow> string \<Rightarrow> http_error + string" where
  "extract_keyword utility_model video_idea =
     (case utility_model (keyword_prompt video_idea) of
        Raised e \<Rightarrow> Inl (keyword_failed e)
      | Returned text \<Rightarrow>
          (let keyword = lower (strip text)
           in if keyword = [] \<or> length keyword > 50
              then Inl (keyword_failed ''Invalid keyword returned'')
              else Inr keyword))"

section \<open>Fetching the trends\<close>

text \<open>
  What \<open>fetch_trends\<close> reads of the answer to the category query: whether the key
  \<open>error\<close> is there, and the list of lines under the key \<open>csv\<close>, \<open>None\<close> when the key is
  absent.
\<close>

record related_topics_result =
  has_error :: bool
  csv :: "string list option"

text \<open>
  The test on each value of the answer to the global query: a list that is not empty and
  whose first element is a dict with the key \<open>title\<close>.
\<close>

fun is_trending_list :: "json \<Rightarrow> bool" where
  "is_trending_list (JArray (JObject first_item # rest)) = (''title'' \<in> set (map fst first_item))"
| "is_trending_list _ = False"

definition find_trending_searches :: "(string \<times> json) list \<Rightarrow> json list" where
  "find_trending_searches results_global =
     (case find (\<lambda>(key, v). is_trending_list v) results_global of
        Some (key, JArray v) \<Rightarrow> v
      | _ \<Rightarrow> [])"

text \<open>\<^verbatim>\<open>t.get('title', {}).get('query')\<close>\<close>

definition title_query :: "json \<Rightarrow> json outcome" where
  "title_query t =
     (case dict_get t ''title'' (JObject []) of
        Raised e \<Rightarrow> Raised e
      | Returned title \<Rightarrow> dict_get title ''query'' JNull)"

text \<open>The list comprehension over \<open>trending_searches\<close>; it stops at the first element that raises.\<close>

fun trend_queries :: "json list \<Rightarrow> json list outcome" where
  "trend_queries [] = Returned []"
| "trend_queries (t # ts) =
     (case title_query t of
        Raised e \<Rightarrow> Raised e
      | Returned q \<Rightarrow>
          (case trend_queries ts of
             Raised e \<Rightarrow> Raised e
           | Returned qs \<Rightarrow> Returned (if truthy q then q # qs else qs)))"

definition fetch_failed :: "string \<Rightarrow> http_error" where
  "fetch_failed e = HTTPException 500 (''Failed to fetch trends: '' @ e)"

text \<open>
  The two dictionaries of parameters, in the order of their keys; \<open>serpapi_api_key\<close> is the
  field of the service.
\<close>

definition params_cat :: "string \<Rightarrow> string \<Rightarrow> string \<Rightarrow> (string \<times> string) list" where
  "params_cat serpapi_api_key keyword category_id =
     [(''engine'', ''google_trends''),
      (''q'', keyword),
      (''cat'', category_id),
      (''data_type'', ''RELATED_TOPICS''),
      (''date'', ''today 1-m''),
      (''gprop'', ''youtube''),
      (''csv'', ''true''),
      (''api_key'', serpapi_api_key)]"

definition params_global :: "string \<Rightarrow> (string \<times> string) list" where
  "params_global serpapi_api_key =
     [(''engine'', ''google_trends_trending_now''),
      (''api_key'', serpapi_api_key)]"

text \<open>
  \<open>fetch_trends\<close>. \<open>search_cat params\<close> and \<open>search_global params\<close> are the outcomes of
  \<^verbatim>\<open>GoogleSearch(params).get_dict()\<close> for the category query and for the global query.
  The second component of the result is the list of the parameter dictionaries of the
  queries made during the call, in order. The whole body is under one \<^verbatim>\<open>try\<close>, whose
  handler turns every exception into the HTTP error; an exception of the category query
  leaves the body before the global query is built.
\<close>

definition fetch_trends ::
  "((string \<times> string) list \<Rightarrow> related_topics_result outcome) \<Rightarrow>
   ((string \<times> string) list \<Rightarrow> (string \<times> json) list outcome) \<Rightarrow>
   string \<Rightarrow> string \<Rightarrow> string \<Rightarrow>
   (http_error + trend_set \<times> json list) \<times> (string \<times> string) list list" where
  "fetch_trends search_cat search_global serpapi_api_key keyword category_id =
     (case search_cat (params_cat serpapi_api_key keyword category_id) of
        Raised e \<Rightarrow> (Inl (fetch_failed e), [params_cat serpapi_api_key keyword category_id])
      | Returned results_cat \<Rightarrow>
          (let category_trends =
                 (if \<not> has_error results_cat
                  then parse_related_topics_csv
                         (case csv results_cat of None \<Rightarrow> Some [] | Some rows \<Rightarrow> Some rows)
                  else no_trends);
               queries = [params_cat serpapi_api_key keyword category_id,
                          params_global serpapi_api_key]
           in case search_global (params_global serpapi_api_key) of
                Raised e \<Rightarrow> (Inl (fetch_failed e), queries)
              | Returned results_global \<Rightarrow>
                  (if ''error'' \<notin> set (map fst results_global)
                   then (let trending_searches = find_trending_searches results_global
                         in if trending_searches \<noteq> []
                            then (case trend_queries trending_searches of
                                    Raised e \<Rightarrow> (Inl (fetch_failed e), queries)
                                  | Returned global_trends \<Rightarrow>
                                      (Inr (category_trends, global_trends), queries))
                            else (Inr (category_trends, []), queries))
                   else (Inr (category_trends, []), queries))))"

section \<open>The viral angle\<close>

definition viral_angle_prompt :: "string \<Rightarrow> string \<Rightarrow> string" where
  \<open>viral_angle_prompt original_idea trend_list_str =
     join_str [CHR 0x0A]
      ['''',
       ''        You are a world-class social media strategist and viral trend analyst. Your task is to analyze a list of raw trend candidates and an original video idea, then formulate a single, concise 'Viral Angle' prompt for a scriptwriter AI.'',
       '''',
       ''        **Original Idea:** "'' @ original_idea @ ''"'',
       '''',
       ''        **Trend Candidates:**'',
       ''        '' @ trend_list_str,
       '''',
       ''        **Your Process:**'',
       ''        1.  **Analyze & Filter:** Review all trend candidates. You MUST DISCARD trends that are:'',
       ''            - Generic or redundant (e.g., 'Coffee', 'Cup' if the topic is coffee).'',
       ''            - Brand-unsafe, political, religious, or overly niche/strange.'',
       ''        2.  **Select for Virality:** From the safe and interesting trends, identify the 1-3 trends with the HIGHEST potential to make the video viral, engaging, and unique.'',
       ''        3.  **Formulate Viral Angle:** Combine the original idea with your chosen viral trends into a single, creative instruction sentence. This sentence is the final output.'',
       ''        4.  **Output Format:** Your final response MUST be a single JSON object containing two keys: "selected_trends" (a list of the exact trend names you chose) and "viral_angle" (the instruction sentence you formulated). Do not add any other text or markdown.'',
       '''',
       ''        **EXAMPLE:**'',
       ''        - Original Idea: "Make a fun 8s TikTok about why iced coffee is better than hot coffee"'',
       ''        - Trend Candidates: ["Coffee", "Starbucks", "Dalgona coffee", "Autumn", "Cozy Coffee Shop"]'',
       ''        - Your Response:'',
       ''        {'',
       ''            "selected_trends": ["Dalgona coffee", "Cozy Coffee Shop"],'',
       ''            "viral_angle": "Create a fun 8s TikTok showing iced coffee is superior to hot coffee by contrasting a boring hot coffee with a trendy, aesthetic 'Dalgona coffee' in a 'Cozy Coffee Shop' setting."'',
       ''        }'',
       ''        '']\<close>

text \<open>
  \<^verbatim>\<open>re.sub(r'```json\n?|```', '', s)\<close>: at each place the longer fence with its optional
  newline is tried first, then the bare fence; otherwise the character is kept.
\<close>

fun sub_code_fence :: "string \<Rightarrow> string" where
  "sub_code_fence [] = []"
| "sub_code_fence (c # cs) =
     (if prefix ''```json'' (c # cs)
      then (if prefix [CHR 0x0A] (drop 6 cs) then sub_code_fence (drop 7 cs)
            else sub_code_fence (drop 6 cs))
      else if prefix ''```'' (c # cs) then sub_code_fence (drop 2 cs)
      else c # sub_code_fence cs)"

definition angle_failed :: "string \<Rightarrow> http_error" where
  "angle_failed e = HTTPException 500 (''Failed to generate viral angle: '' @ e)"

text \<open>
  The \<^verbatim>\<open>try\<close> block of \<open>generate_viral_angle\<close>, from the outcome of the model call
  (\<open>generate_content\<close> and the reading of \<open>response.text\<close>) to the pair returned.
  \<open>json_loads\<close> is the library's decoder.
\<close>

definition decode_viral_angle ::
  "(string \<Rightarrow> json outcome) \<Rightarrow> string outcome \<Rightarrow> http_error + json \<times> json list" where
  "decode_viral_angle json_loads response =
     (case response of
        Raised e \<Rightarrow> Inl (angle_failed e)
      | Returned text \<Rightarrow>
          (case json_loads (sub_code_fence (strip text)) of
             Raised e \<Rightarrow> Inl (angle_failed e)
           | Returned result_json \<Rightarrow>
               (case dict_get result_json ''viral_angle'' JNull of
                  Raised e \<Rightarrow> Inl (angle_failed e)
                | Returned viral_angle \<Rightarrow>
                    (case dict_get result_json ''selected_trends'' (JArray []) of
                       Raised e \<Rightarrow> Inl (angle_failed e)
                     | Returned (JArray selected_trends) \<Rightarrow>
                         if \<not> truthy viral_angle
                         then Inl (angle_failed ''AI response missing required keys'')
                         else Inr (viral_angle, selected_trends)
                     | Returned _ \<Rightarrow> Inl (angle_failed ''AI response missing required keys'')))))"

text \<open>\<^verbatim>\<open>category_trends.get(key, [])\<close> on the request's \<open>Dict[str, List[str]]\<close>.\<close>

definition get_list :: "(string \<rightharpoonup> string list) \<Rightarrow> string \<Rightarrow> string list" where
  "get_list d key = (case d key of None \<Rightarrow> [] | Some v \<Rightarrow> v)"

text \<open>
  \<open>generate_viral_angle\<close>. The second component of the result is the list of the prompts
  sent to \<open>utility_model\<close> during the call, in order: it is empty when the model was not
  called.
\<close>

definition generate_viral_angle ::
  "(string \<Rightarrow> string outcome) \<Rightarrow> (string \<Rightarrow> json outcome) \<Rightarrow>
   string \<Rightarrow> (string \<rightharpoonup> string list) \<Rightarrow> string list \<Rightarrow>
   (http_error + json \<times> json list) \<times> string list" where
  \<open>generate_viral_angle utility_model json_loads original_idea category_trends global_trends =
     (let candidates =
            trend_candidates (get_list category_trends ''rising'')
              (get_list category_trends ''top'') global_trends
      in if candidates = [] then (Inr (JString original_idea, []), [])
         else (let trend_list_str =
                     join_str [CHR 0x0A] (map (\<lambda>trend. ''- "'' @ trend @ ''"'') candidates);
                   prompt = viral_angle_prompt original_idea trend_list_str
               in (decode_viral_angle json_loads (utility_model prompt), [prompt])))\<close>

section \<open>The script\<close>

definition script_prompt :: "string \<Rightarrow> string" where
  \<open>script_prompt viral_angle =
     join_str [CHR 0x0A]
      ['''',
       ''        You are an expert short-form video scriptwriter for platforms like TikTok and Instagram Reels.'',
       ''        Your task is to take a specific 'Viral Angle' and turn it into a complete, ready-to-shoot script concept.'',
       '''',
       ''        **Viral Angle / Core Instruction:**'',
       ''        "'' @ viral_angle @ ''"'',
       '''',
       ''        **Your Output:**'',
       ''        - Create a short, concise script (for an 8-15 second video).'',
       ''        - Include scene descriptions, dialogue/VO, and suggested on-screen text/hashtags.'',
       ''        - The tone should be authentic, punchy, and highly shareable.'',
       ''        '']\<close>

definition script_failed :: "string \<Rightarrow> http_error" where
  "script_failed e = HTTPException 500 (''Failed to generate script: '' @ e)"

text \<open>
  \<open>generate_script\<close>. \<open>creative_model prompt\<close> is the outcome of \<open>generate_content\<close> and of
  the reading of \<open>response.text\<close>.
\<close>

definition generate_script :: "(string \<Rightarrow> string outcome) \<Rightarrow> string \<Rightarrow> http_error + string" where
  "generate_script creative_model viral_angle =
     (case creative_model (script_prompt viral_angle) of
        Raised e \<Rightarrow> Inl (script_failed e)
      | Returned text \<Rightarrow> Inr (strip text))"

section \<open>Notions used to state the properties\<close>

text \<open>The position of the first occurrence of \<open>x\<close> in \<open>xs\<close>; the length of \<open>xs\<close> when there is none.\<close>

fun first_index :: "'a list \<Rightarrow> 'a \<Rightarrow> nat" where
  "first_index [] x = 0"
| "first_index (y # ys) x = (if x = y then 0 else Suc (first_index ys x))"

text \<open>
  The entries of \<open>xs\<close> that the merging loop appends when it starts with the set \<open>seen\<close>:
  those whose lowercase form is neither in \<open>seen\<close> nor the lowercase form of an earlier
  entry.
\<close>

fun first_seen :: "string set \<Rightarrow> string list \<Rightarrow> string list" where
  "first_seen seen [] = []"
| "first_seen seen (x # xs) =
     (if lower x \<in> seen then first_seen seen xs
      else x # first_seen (insert (lower x) seen) xs)"

section \<open>Sample collaborators\<close>

text \<open>A model that answers every prompt with three blanks.\<close>

definition blank_model :: "string \<Rightarrow> string outcome" where
  "blank_model prompt = Returned ''   ''"

text \<open>A category query that raises, and one whose answer carries the key \<open>error\<close>.\<close>

definition search_timeout :: "(string \<times> string) list \<Rightarrow> related_topics_result outcome" where
  "search_timeout params = Raised ''timed out''"

definition search_refused :: "(string \<times> string) list \<Rightarrow> related_topics_result outcome" where
  "search_refused params = Returned \<lparr>has_error = True, csv = None\<rparr>"

text \<open>A category query that returns two lines.\<close>

definition search_coffee :: "(string \<times> string) list \<Rightarrow> related_topics_result outcome" where
  "search_coffee params =
     Returned \<lparr>has_error = False, csv = Some [''TOP'', ''Coffee,100'']\<rparr>"

text \<open>
  An answer to the global query with one trend; a global query that returns it, one that
  returns it with the key \<open>error\<close> added, and one that raises.
\<close>

definition trending_now :: "(string \<times> json) list" where
  "trending_now =
     [(''search_metadata'', JObject [(''status'', JString ''Success'')]),
      (''trending_searches'',
         JArray [JObject [(''title'', JObject [(''query'', JString ''Autumn'')])]])]"

definition global_now :: "(string \<times> string) list \<Rightarrow> (string \<times> json) list outcome" where
  "global_now params = Returned trending_now"

definition global_refused :: "(string \<times> string) list \<Rightarrow> (string \<times> json) list outcome" where
  "global_refused params = Returned ((''error'', JString ''no results'') # trending_now)"

definition global_timeout :: "(string \<times> string) list \<Rightarrow> (string \<times> json) list outcome" where
  "global_timeout params = Raised ''timed out''"

text \<open>A decoder that finds an object whose instruction sentence is the empty string.\<close>

definition decode_empty_angle :: "string \<Rightarrow> json outcome" where
  "decode_empty_angle text =
     Returned (JObject [(''viral_angle'', JString []), (''selected_trends'', JArray [])])"

text \<open>A decoder that answers every text with \<open>null\<close>.\<close>

definition decode_null :: "string \<Rightarrow> json outcome" where
  "decode_null text = Returned JNull"

section \<open>The merging loop, characterised\<close>

lemma foldl_merge_trend:
  "foldl merge_trend (merged, seen) xs = (merged @ first_seen seen xs, seen \<union> lower ` set xs)"
  by (induction xs arbitrary: merged seen) (auto simp: merge_trend_def)

lemma first_seen_append:
  "first_seen seen (xs @ ys) = first_seen seen xs @ first_seen (seen \<union> lower ` set xs) ys"
  by (induction xs arbitrary: seen) (auto simp: insert_absorb)

lemma merge_trends_first_seen:
  "merge_trends rising top_section global_trends =
     first_seen {} (rising @ top_section @ global_trends)"
  by (simp add: merge_trends_def foldl_merge_trend first_seen_append Un_assoc)

lemma first_seen_subseq: "subseq (first_seen seen xs) xs"
  by (induction xs arbitrary: seen) auto

lemma first_seen_unseen: "x \<in> set (first_seen seen xs) \<Longrightarrow> lower x \<notin> seen"
  by (induction xs arbitrary: seen) (auto split: if_splits)

lemma first_seen_set: "x \<in> set (first_seen seen xs) \<Longrightarrow> x \<in> set xs"
  by (induction xs arbitrary: seen) (auto split: if_splits)

lemma first_seen_distinct: "distinct (map lower (first_seen seen xs))"
  by (induction xs arbitrary: seen) (auto dest: first_seen_unseen)

text \<open>
  The order of the entries kept is that of their first occurrences, whether an occurrence
  is told by the entry itself or by any \<open>key\<close> at least as fine as the lowercase form.
\<close>

lemma first_seen_order:
  assumes fine: "\<And>x y. key x = key y \<Longrightarrow> lower x = lower y"
  shows "sorted_wrt (\<lambda>x y. first_index (map key xs) (key x) < first_index (map key xs) (key y))
           (first_seen seen xs)"
proof (induction xs arbitrary: seen)
  case Nil
  show ?case by simp
next
  case (Cons a xs)
  let ?before = "\<lambda>zs x y. first_index (map key zs) (key x) < first_index (map key zs) (key y)"
  have differs: "key y \<noteq> key a" if "y \<in> set (first_seen S xs)" "lower a \<in> S" for y S
    using first_seen_unseen [OF that(1)] that(2) fine [of y a] by auto
  have shift: "sorted_wrt (?before (a # xs)) (first_seen S xs)" if "lower a \<in> S" for S
  proof -
    have "sorted_wrt (?before xs) (first_seen S xs)"
      by (rule Cons.IH)
    then show ?thesis
    proof (rule sorted_wrt_mono_rel [rotated])
      fix x y
      assume "x \<in> set (first_seen S xs)" "y \<in> set (first_seen S xs)" and "?before xs x y"
      then show "?before (a # xs) x y"
        using that by (simp add: differs)
    qed
  qed
  show ?case
  proof (cases "lower a \<in> seen")
    case True
    then show ?thesis using shift [of seen] by simp
  next
    case False
    have "sorted_wrt (?before (a # xs)) (first_seen (insert (lower a) seen) xs)"
      by (rule shift) simp
    moreover have "key y \<noteq> key a" if "y \<in> set (first_seen (insert (lower a) seen) xs)" for y
      using that by (rule differs) simp
    ultimately show ?thesis using False by simp
  qed
qed

lemma first_seen_order_verbatim:
  "sorted_wrt (\<lambda>x y. first_index xs x < first_index xs y) (first_seen seen xs)"
  using first_seen_order [of "\<lambda>x. x" xs seen] by simp

lemma first_seen_order_lower:
  "sorted_wrt (\<lambda>x y. first_index (map lower xs) (lower x) < first_index (map lower xs) (lower y))
     (first_seen seen xs)"
  by (rule first_seen_order)

lemma first_seen_id:
  "distinct (map lower xs) \<Longrightarrow> lower ` set xs \<inter> seen = {} \<Longrightarrow> first_seen seen xs = xs"
  by (induction xs arbitrary: seen) auto

section \<open>Properties of the merged candidates\<close>

text \<open>
  The example of the specification: the entry of the top list that repeats an entry of the
  rising list in another case is left out.
\<close>

lemma trend_candidates_scenario_B:
  "trend_candidates [''Dalgona coffee''] [''Coffee'', ''dalgona coffee''] [''Autumn''] =
     [''Dalgona coffee'', ''Coffee'', ''Autumn'']"
  by code_simp

text \<open>
  Claim C1. For all three sources, the candidate list has at most 25 entries, no two of
  its entries have the same lowercase form, and its entries stand in the order of their
  first occurrences in the sources read in priority order (rising, then top, then global):
  of two entries, the one that stands first in the output is the one whose first
  occurrence comes first, both when occurrences are compared verbatim and when they are
  compared by lowercase form.
\<close>

theorem trend_candidates_capped_distinct_ordered:
  "length (trend_candidates rising top_section global_trends) \<le> 25 \<and>
   distinct (map lower (trend_candidates rising top_section global_trends)) \<and>
   sorted_wrt
     (\<lambda>x y. first_index (rising @ top_section @ global_trends) x
             < first_index (rising @ top_section @ global_trends) y)
     (trend_candidates rising top_section global_trends) \<and>
   sorted_wrt
     (\<lambda>x y. first_index (map lower (rising @ top_section @ global_trends)) (lower x)
             < first_index (map lower (rising @ top_section @ global_trends)) (lower y))
     (trend_candidates rising top_section global_trends)"
proof -
  let ?src = "rising @ top_section @ global_trends"
  have cand: "trend_candidates rising top_section global_trends = take 25 (first_seen {} ?src)"
    by (simp add: trend_candidates_def merge_trends_first_seen)
  have "length (take 25 (first_seen {} ?src)) \<le> 25"
    by simp
  moreover have "distinct (map lower (take 25 (first_seen {} ?src)))"
    using first_seen_distinct [of "{}" ?src] by (simp add: take_map [symmetric])
  moreover have "sorted_wrt (\<lambda>x y. first_index ?src x < first_index ?src y)
                   (take 25 (first_seen {} ?src))"
    by (rule sorted_wrt_take) (rule first_seen_order_verbatim)
  moreover have "sorted_wrt
      (\<lambda>x y. first_index (map lower ?src) (lower x) < first_index (map lower ?src) (lower y))
      (take 25 (first_seen {} ?src))"
    by (rule sorted_wrt_take) (rule first_seen_order_lower)
  ultimately show ?thesis
    unfolding cand by blast
qed

text \<open>
  Claim C7. A list that has no two entries with the same lowercase form and at most 25
  entries comes back unchanged when it is the only source that is not empty, whichever of
  the three places it is given in.
\<close>

theorem trend_candidates_sole_source:
  assumes "distinct (map lower L)" and "length L \<le> 25"
  shows "trend_candidates L [] [] = L \<and> trend_candidates [] L [] = L \<and>
         trend_candidates [] [] L = L"
  using assms by (simp add: trend_candidates_def merge_trends_first_seen first_seen_id)

theorem trend_candidates_sole_source_witness:
  "distinct (map lower [''Dalgona coffee'', ''Coffee'', ''Autumn'']) \<and>
   length [''Dalgona coffee'', ''Coffee'', ''Autumn''] \<le> 25 \<and>
   trend_candidates [''Dalgona coffee'', ''Coffee'', ''Autumn''] [] [] =
     [''Dalgona coffee'', ''Coffee'', ''Autumn''] \<and>
   trend_candidates [] [''Dalgona coffee'', ''Coffee'', ''Autumn''] [] =
     [''Dalgona coffee'', ''Coffee'', ''Autumn''] \<and>
   trend_candidates [] [] [''Dalgona coffee'', ''Coffee'', ''Autumn''] =
     [''Dalgona coffee'', ''Coffee'', ''Autumn'']"
proof -
  have d: "distinct (map lower [''Dalgona coffee'', ''Coffee'', ''Autumn''])"
    by (simp add: lower_def lower_char_def)
  have l: "length [''Dalgona coffee'', ''Coffee'', ''Autumn''] \<le> 25"
    by simp
  show ?thesis
    using d l trend_candidates_sole_source [OF d l] by simp
qed

text \<open>
  Claim C10. For all three sources, the candidate list is a subsequence of the sources put
  end to end in priority order; so each of its entries is, letter for letter, an entry of
  one of the sources.
\<close>

theorem trend_candidates_subseq_of_sources:
  "subseq (trend_candidates rising top_section global_trends)
     (rising @ top_section @ global_trends) \<and>
   set (trend_candidates rising top_section global_trends)
     \<subseteq> set rising \<union> set top_section \<union> set global_trends"
proof -
  let ?src = "rising @ top_section @ global_trends"
  have "subseq (take 25 (first_seen {} ?src)) (first_seen {} ?src)"
    by (metis append_take_drop_id prefix_def prefix_imp_subseq)
  then have sub: "subseq (trend_candidates rising top_section global_trends) ?src"
    unfolding trend_candidates_def merge_trends_first_seen
    by (rule subseq_order.order_trans) (rule first_seen_subseq)
  have "set (trend_candidates rising top_section global_trends) \<subseteq> set ?src"
    unfolding trend_candidates_def merge_trends_first_seen
    using set_take_subset [of 25 "first_seen {} ?src"] first_seen_set [of _ "{}" ?src]
    by blast
  then show ?thesis using sub by auto
qed

section \<open>Characters and rows\<close>

lemma upper_char_code:
  "(of_char (upper_char c) :: nat) =
     (if 97 \<le> (of_char c :: nat) \<and> (of_char c :: nat) \<le> 122 then of_char c - 32 else of_char c)"
  by (auto simp: upper_char_def Let_def)

lemma char_eq_code: "c = d \<longleftrightarrow> (of_char c :: nat) = of_char d"
  by simp

lemma upper_char_colon: "upper_char c = CHR '':'' \<longleftrightarrow> c = CHR '':''"
  by (auto simp: char_eq_code [of _ "CHR '':''"] upper_char_code split: if_splits)

lemma upper_letter_plain:
  assumes "upper_char c \<in> set ''TOPRISNG''"
  shows "\<not> isspace c \<and> c \<noteq> CHR '',''"
proof -
  from assms have "(of_char (upper_char c) :: nat) \<in> of_char ` set ''TOPRISNG''"
    by (rule imageI)
  then have "65 \<le> (of_char (upper_char c) :: nat)"
    by auto
  then have "65 \<le> (of_char c :: nat)"
    by (simp add: upper_char_code split: if_splits)
  then show ?thesis
    by (auto simp: isspace_def Let_def)
qed

lemma colon_row_no_header:
  assumes "CHR '':'' \<in> set row"
  shows "upper row \<noteq> ''TOP'' \<and> upper row \<noteq> ''RISING''"
proof -
  from assms have "upper_char (CHR '':'') \<in> set (upper row)"
    unfolding upper_def by simp
  moreover have "upper_char (CHR '':'') = CHR '':''"
    by (simp add: upper_char_colon)
  ultimately have "CHR '':'' \<in> set (upper row)"
    by simp
  then show ?thesis by auto
qed

lemma header_row_plain:
  assumes "upper row = ''TOP'' \<or> upper row = ''RISING''"
  shows "row \<noteq> [] \<and> (\<forall>c\<in>set row. \<not> isspace c \<and> c \<noteq> CHR '','')"
proof -
  have "row \<noteq> []" using assms by (auto simp: upper_def)
  moreover have "\<not> isspace c \<and> c \<noteq> CHR '',''" if "c \<in> set row" for c
  proof -
    from that have "upper_char c \<in> set (upper row)" by (simp add: upper_def)
    with assms have "upper_char c \<in> set ''TOPRISNG''" by auto
    then show ?thesis by (rule upper_letter_plain)
  qed
  ultimately show ?thesis by blast
qed

lemma sub_value_suffix_no_comma: "CHR '','' \<notin> set row \<Longrightarrow> sub_value_suffix row = row"
  by (induction row) auto

lemma strip_plain:
  assumes "\<forall>c\<in>set row. \<not> isspace c"
  shows "strip row = row"
proof -
  from assms have "dropWhile isspace row = row"
    by (cases row) auto
  moreover from assms have "dropWhile isspace (rev row) = rev row"
    by (cases "rev row") (auto simp: rev_eq_Cons_iff)
  ultimately show ?thesis by (simp add: strip_def)
qed

lemma header_row_topic:
  assumes "upper row = ''TOP'' \<or> upper row = ''RISING''"
  shows "strip (sub_value_suffix row) = row" "row \<noteq> []"
proof -
  from header_row_plain [OF assms]
  have "row \<noteq> []" "CHR '','' \<notin> set row" "\<forall>c\<in>set row. \<not> isspace c"
    by auto
  then show "strip (sub_value_suffix row) = row" "row \<noteq> []"
    by (simp_all add: sub_value_suffix_no_comma strip_plain)
qed

section \<open>Rows that leave the parse as it is\<close>

lemma parse_skip_row:
  assumes "\<And>st. parse_row st row = st"
  shows "parse_related_topics_csv (Some (pre @ row # post)) =
         parse_related_topics_csv (Some (pre @ post))"
  by (simp add: parse_related_topics_csv_def assms no_trends_def)

lemma parse_row_colon: "CHR '':'' \<in> set row \<Longrightarrow> parse_row st row = st"
  using colon_row_no_header [of row] by (cases st) (auto simp: parse_row_def)

lemma parse_row_no_topic:
  assumes "strip (sub_value_suffix row) = []"
  shows "parse_row st row = st"
proof -
  have "upper row \<noteq> ''TOP''" "upper row \<noteq> ''RISING''"
    using header_row_topic [of row] assms by auto
  then show ?thesis
    using assms by (cases st) (auto simp: parse_row_def split: option.splits)
qed

section \<open>Properties of the parser\<close>

text \<open>
  Claim C2. The lines \<open>TOP\<close>, \<open>Coffee,100\<close>, \<open>Tea,+20%\<close>, \<open>RISING\<close>, \<open>Matcha,Breakout\<close>
  parse to the top list \<open>Coffee\<close>, \<open>Tea\<close> and the rising list \<open>Matcha\<close>.
\<close>

theorem parse_scenario_A:
  "parse_related_topics_csv
     (Some [''TOP'', ''Coffee,100'', ''Tea,+20%'', ''RISING'', ''Matcha,Breakout'']) =
   \<lparr>top_trends = [''Coffee'', ''Tea''], rising_trends = [''Matcha'']\<rparr>"
  by code_simp

text \<open>
  Claim C3, as stated: wherever the line \<open>,\<close> stands, the parse is that of the lines
  without it. It fails after a header: the pattern finds no value after the comma, the
  whole line stays as the topic, and the topic \<open>,\<close> is appended to the top list; the line
  that follows is parsed as usual.
\<close>

theorem stray_comma_kept_counterexample:
  "parse_related_topics_csv (Some [''TOP'', '','', ''Tea,5'']) =
     \<lparr>top_trends = ['','', ''Tea''], rising_trends = []\<rparr> \<and>
   parse_related_topics_csv (Some [''TOP'', ''Tea,5'']) =
     \<lparr>top_trends = [''Tea''], rising_trends = []\<rparr>"
  by code_simp

text \<open>
  Claim C3, amended. A line whose topic is empty once the value suffix is removed and the
  white space trimmed (such as \<open>,100\<close>) adds no topic to either list, and the lines around
  it are parsed as if it were not there. The line \<open>,\<close> is not such a line: before any
  header it changes nothing, and under a current section it is appended to that section
  as the topic \<open>,\<close>, the cursor staying where it is.
\<close>

theorem parse_drops_row_without_topic:
  "(strip (sub_value_suffix row) = [] \<longrightarrow>
      parse_related_topics_csv (Some (pre @ row # post)) =
      parse_related_topics_csv (Some (pre @ post))) \<and>
   parse_row (trends, None) '','' = (trends, None) \<and>
   parse_row (trends, Some sec) '','' = (append_topic sec '','' trends, Some sec)"
proof -
  have "parse_related_topics_csv (Some (pre @ row # post)) =
        parse_related_topics_csv (Some (pre @ post))"
    if "strip (sub_value_suffix row) = []"
    by (rule parse_skip_row) (rule parse_row_no_topic [OF that])
  moreover have "parse_row (trends, None) '','' = (trends, None)"
    by (simp add: parse_row_def upper_def)
  moreover have "parse_row (trends, Some sec) '','' = (append_topic sec '','' trends, Some sec)"
    by (simp add: parse_row_def upper_def strip_def isspace_def value_token_def)
  ultimately show ?thesis by blast
qed

theorem parse_drops_row_without_topic_witness:
  "strip (sub_value_suffix '',100'') = [] \<and>
   parse_related_topics_csv (Some ([''TOP'', ''Coffee,1''] @ '',100'' # [''Tea,5''])) =
   parse_related_topics_csv (Some ([''TOP'', ''Coffee,1''] @ [''Tea,5''])) \<and>
   parse_related_topics_csv (Some ([''TOP'', ''Coffee,1''] @ [''Tea,5''])) =
     \<lparr>top_trends = [''Coffee'', ''Tea''], rising_trends = []\<rparr>"
proof -
  have h: "strip (sub_value_suffix '',100'') = []"
    by code_simp
  have r: "parse_related_topics_csv (Some ([''TOP'', ''Coffee,1''] @ [''Tea,5''])) =
             \<lparr>top_trends = [''Coffee'', ''Tea''], rising_trends = []\<rparr>"
    by code_simp
  from parse_drops_row_without_topic [of "'',100''" "[''TOP'', ''Coffee,1'']" "[''Tea,5'']"] h
  have "parse_related_topics_csv (Some ([''TOP'', ''Coffee,1''] @ '',100'' # [''Tea,5''])) =
        parse_related_topics_csv (Some ([''TOP'', ''Coffee,1''] @ [''Tea,5'']))"
    by blast
  with h r show ?thesis by blast
qed

text \<open>
  Claim C8. On a missing and on an empty sequence of lines the parser returns the trend
  set with both lists empty. It returns at once, before the loop; the function has no
  failing branch on any sequence of lines.
\<close>

theorem parse_empty_input:
  "parse_related_topics_csv None = \<lparr>top_trends = [], rising_trends = []\<rparr> \<and>
   parse_related_topics_csv (Some []) = \<lparr>top_trends = [], rising_trends = []\<rparr>"
  by (simp add: parse_related_topics_csv_def no_trends_def)

text \<open>
  Claim C9. A row that contains a colon is never one of the two headers, leaves the lists
  and the section cursor as they are, and so the parse of a sequence with such a row is
  the parse of the sequence without it, also when the row ends in a value suffix.
\<close>

theorem parse_skips_colon_row:
  assumes "CHR '':'' \<in> set row"
  shows "upper row \<noteq> ''TOP'' \<and> upper row \<noteq> ''RISING'' \<and>
         parse_row st row = st \<and>
         parse_related_topics_csv (Some (pre @ row # post)) =
         parse_related_topics_csv (Some (pre @ post))"
proof -
  have "parse_related_topics_csv (Some (pre @ row # post)) =
        parse_related_topics_csv (Some (pre @ post))"
    by (rule parse_skip_row) (rule parse_row_colon [OF assms])
  then show ?thesis
    using colon_row_no_header [OF assms] parse_row_colon [OF assms] by simp
qed

theorem parse_skips_colon_row_witness:
  "CHR '':'' \<in> set ''Coffee: the drink,100'' \<and>
   parse_row (no_trends, Some Top) ''Coffee: the drink,100'' = (no_trends, Some Top) \<and>
   parse_related_topics_csv (Some ([''TOP''] @ ''Coffee: the drink,100'' # [''Tea,5''])) =
   parse_related_topics_csv (Some ([''TOP''] @ [''Tea,5'']))"
proof -
  have h: "CHR '':'' \<in> set ''Coffee: the drink,100''"
    by simp
  from parse_skips_colon_row [OF h, of "(no_trends, Some Top)" "[''TOP'']" "[''Tea,5'']"] h
  show ?thesis by blast
qed

section \<open>Properties of the calls to the collaborators\<close>

text \<open>
  The two other functions that read a reply of the model refuse an empty one:
  \<open>extract_keyword\<close> fails on a reply that is empty once trimmed, and the decoding in
  \<open>generate_viral_angle\<close> fails on an empty instruction sentence.
\<close>

lemma sibling_paths_reject_empty_reply:
  "extract_keyword blank_model ''Show why iced coffee wins'' =
     Inl (HTTPException 500 ''Failed to extract keyword: Invalid keyword returned'') \<and>
   decode_viral_angle decode_empty_angle (Returned ''{}'') =
     Inl (HTTPException 500 ''Failed to generate viral angle: AI response missing required keys'')"
  by (simp add: extract_keyword_def blank_model_def keyword_failed_def lower_def strip_def
      isspace_def decode_viral_angle_def decode_empty_angle_def angle_failed_def dict_get_def)

text \<open>
  The part of claim C4 that the code keeps: a reply that is not empty once trimmed is
  returned trimmed, and an exception of the model call is the HTTP error.
\<close>

lemma generate_script_returns_trimmed:
  "creative_model (script_prompt viral_angle) = Returned text \<Longrightarrow> strip text \<noteq> [] \<Longrightarrow>
     generate_script creative_model viral_angle = Inr (strip text)"
  "creative_model (script_prompt viral_angle) = Raised e \<Longrightarrow>
     generate_script creative_model viral_angle =
       Inl (HTTPException 500 (''Failed to generate script: '' @ e))"
  by (simp_all add: generate_script_def script_failed_def)

text \<open>
  Claim C4. \<open>generate_script\<close> is to fail when the reply of the model is empty once
  trimmed, a script that is not empty being the only success. The code has no such test:
  on a reply of three blanks it returns the empty script as a success, where the claim
  asks for the error.
\<close>

theorem generate_script_blank_reply_succeeds:
  "generate_script blank_model ''Show why iced coffee wins'' = Inr []"
  by (simp add: generate_script_def blank_model_def strip_def isspace_def)

text \<open>
  Claim C5, as stated: a failure of the category query empties the category half only,
  and the global half is still fetched. It does not: when the category query raises, the
  call ends with the HTTP error and the category query is the only one made, although the
  global query would have answered; when the global query raises, the call ends with the
  HTTP error although the category query has answered.
\<close>

theorem fetch_trends_failure_counterexample:
  "fetch_trends search_timeout global_now ''key'' ''coffee'' ''71'' =
     (Inl (HTTPException 500 ''Failed to fetch trends: timed out''),
      [params_cat ''key'' ''coffee'' ''71'']) \<and>
   fetch_trends search_coffee global_timeout ''key'' ''coffee'' ''71'' =
     (Inl (HTTPException 500 ''Failed to fetch trends: timed out''),
      [params_cat ''key'' ''coffee'' ''71'', params_global ''key''])"
  by (simp add: fetch_trends_def search_timeout_def search_coffee_def global_timeout_def
      fetch_failed_def)

text \<open>
  Claim C5, amended. An error indicator, the key \<open>error\<close> in an answer, empties the half
  of that answer and no more: with it in the category answer the result is the one for
  any other category answer with the category half replaced by the empty lists; with it
  in the global answer the call succeeds with the empty global list and the category half
  that the category answer gives. Whenever the category query returns, with the indicator
  or without, the global query is made after it. An exception raised by either query ends
  the whole call with status 500 and the detail \<open>Failed to fetch trends: \<close> followed by
  the text of the exception; after one raised by the category query the global query is
  not made.
\<close>

theorem fetch_trends_degradation:
  "(search_cat (params_cat api_key keyword category_id) = Returned results_cat \<and>
    has_error results_cat \<and>
    search_cat' (params_cat api_key keyword category_id) = Returned results_cat' \<longrightarrow>
      fst (fetch_trends search_cat search_global api_key keyword category_id) =
        map_sum id (\<lambda>(category_trends, global_trends). (no_trends, global_trends))
          (fst (fetch_trends search_cat' search_global api_key keyword category_id))) \<and>
   (search_cat (params_cat api_key keyword category_id) = Returned results_cat \<and>
    search_global (params_global api_key) = Returned results_global \<and>
    ''error'' \<in> set (map fst results_global) \<longrightarrow>
      fst (fetch_trends search_cat search_global api_key keyword category_id) =
        Inr (if has_error results_cat then no_trends
             else parse_related_topics_csv
                    (Some (case csv results_cat of None \<Rightarrow> [] | Some rows \<Rightarrow> rows)),
             [])) \<and>
   (search_cat (params_cat api_key keyword category_id) = Returned results_cat \<longrightarrow>
      snd (fetch_trends search_cat search_global api_key keyword category_id) =
        [params_cat api_key keyword category_id, params_global api_key]) \<and>
   (search_cat (params_cat api_key keyword category_id) = Raised e \<longrightarrow>
      fetch_trends search_cat search_global api_key keyword category_id =
        (Inl (HTTPException 500 (''Failed to fetch trends: '' @ e)),
         [params_cat api_key keyword category_id])) \<and>
   (search_cat (params_cat api_key keyword category_id) = Returned results_cat \<and>
    search_global (params_global api_key) = Raised e \<longrightarrow>
      fetch_trends search_cat search_global api_key keyword category_id =
        (Inl (HTTPException 500 (''Failed to fetch trends: '' @ e)),
         [params_cat api_key keyword category_id, params_global api_key]))"
  by (auto simp: fetch_trends_def fetch_failed_def Let_def split: outcome.splits option.splits)

theorem fetch_trends_degradation_witness:
  "fetch_trends search_refused global_now ''key'' ''coffee'' ''71'' =
     (Inr (no_trends, [JString ''Autumn'']),
      [params_cat ''key'' ''coffee'' ''71'', params_global ''key'']) \<and>
   fst (fetch_trends search_coffee global_refused ''key'' ''coffee'' ''71'') =
     Inr (\<lparr>top_trends = [''Coffee''], rising_trends = []\<rparr>, []) \<and>
   fetch_trends search_timeout global_now ''key'' ''coffee'' ''71'' =
     (Inl (HTTPException 500 ''Failed to fetch trends: timed out''),
      [params_cat ''key'' ''coffee'' ''71'']) \<and>
   fetch_trends search_coffee global_timeout ''key'' ''coffee'' ''71'' =
     (Inl (HTTPException 500 ''Failed to fetch trends: timed out''),
      [params_cat ''key'' ''coffee'' ''71'', params_global ''key''])"
proof -
  let ?cat_error = "\<lparr>has_error = True, csv = None\<rparr>"
  let ?cat_fine = "\<lparr>has_error = False, csv = Some [''TOP'', ''Coffee,100'']\<rparr>"
  let ?glob_error = "(''error'', JString ''no results'') # trending_now"
  let ?pc = "params_cat ''key'' ''coffee'' ''71''"
  let ?pg = "params_global ''key''"
  have fine: "fst (fetch_trends search_coffee global_now ''key'' ''coffee'' ''71'') =
                Inr (\<lparr>top_trends = [''Coffee''], rising_trends = []\<rparr>, [JString ''Autumn''])"
    by code_simp
  have parsed: "parse_related_topics_csv (Some [''TOP'', ''Coffee,100'']) =
                  \<lparr>top_trends = [''Coffee''], rising_trends = []\<rparr>"
    by code_simp
  have refused: "search_refused ?pc = Returned ?cat_error"
    and coffee: "search_coffee ?pc = Returned ?cat_fine"
    and timeout: "search_timeout ?pc = Raised ''timed out''"
    by (simp_all add: search_refused_def search_coffee_def search_timeout_def)
  have g_refused: "global_refused ?pg = Returned ?glob_error"
    and g_timeout: "global_timeout ?pg = Raised ''timed out''"
    by (simp_all add: global_refused_def global_timeout_def)
  have key: "''error'' \<in> set (map fst ?glob_error)"
    by simp
  note inst = fetch_trends_degradation [where api_key = "''key''" and keyword = "''coffee''"
      and category_id = "''71''"]
  have "fst (fetch_trends search_refused global_now ''key'' ''coffee'' ''71'') =
          Inr (no_trends, [JString ''Autumn''])"
    using inst [where search_cat = search_refused and results_cat = ?cat_error
        and search_cat' = search_coffee and results_cat' = ?cat_fine
        and search_global = global_now]
      refused coffee fine
    by simp
  moreover have "snd (fetch_trends search_refused global_now ''key'' ''coffee'' ''71'') =
          [?pc, ?pg]"
    using inst [where search_cat = search_refused and results_cat = ?cat_error
        and search_global = global_now]
      refused
    by simp
  ultimately have first: "fetch_trends search_refused global_now ''key'' ''coffee'' ''71'' =
          (Inr (no_trends, [JString ''Autumn'']), [?pc, ?pg])"
    by (simp add: prod_eq_iff)
  have second: "fst (fetch_trends search_coffee global_refused ''key'' ''coffee'' ''71'') =
          Inr (\<lparr>top_trends = [''Coffee''], rising_trends = []\<rparr>, [])"
    using inst [where search_cat = search_coffee and results_cat = ?cat_fine
        and search_global = global_refused and results_global = ?glob_error]
      coffee g_refused key parsed
    by simp
  have third: "fetch_trends search_timeout global_now ''key'' ''coffee'' ''71'' =
          (Inl (HTTPException 500 ''Failed to fetch trends: timed out''), [?pc])"
    using inst [where search_cat = search_timeout and search_global = global_now
        and e = "''timed out''"]
      timeout
    by simp
  have fourth: "fetch_trends search_coffee global_timeout ''key'' ''coffee'' ''71'' =
          (Inl (HTTPException 500 ''Failed to fetch trends: timed out''), [?pc, ?pg])"
    using inst [where search_cat = search_coffee and results_cat = ?cat_fine
        and search_global = global_timeout and e = "''timed out''"]
      coffee g_timeout
    by simp
  from first second third fourth show ?thesis by blast
qed

text \<open>
  Claim C6. When the rising list, the top list and the global list are all empty,
  \<open>generate_viral_angle\<close> sends no prompt to the model and returns the original idea, as it
  was given, with the empty list of selected trends, whatever the idea, the model and
  the decoder are.
\<close>

theorem generate_viral_angle_bypass:
  assumes "get_list category_trends ''rising'' = []"
    and "get_list category_trends ''top'' = []"
    and "global_trends = []"
  shows "generate_viral_angle utility_model json_loads original_idea category_trends
           global_trends =
         (Inr (JString original_idea, []), [])"
  using assms by (simp add: generate_viral_angle_def trend_candidates_def merge_trends_def)

theorem generate_viral_angle_bypass_witness:
  "get_list [''top'' \<mapsto> [], ''rising'' \<mapsto> []] ''rising'' = [] \<and>
   get_list [''top'' \<mapsto> [], ''rising'' \<mapsto> []] ''top'' = [] \<and>
   generate_viral_angle blank_model decode_null ''Iced coffee beats hot coffee''
     [''top'' \<mapsto> [], ''rising'' \<mapsto> []] [] =
   (Inr (JString ''Iced coffee beats hot coffee'', []), [])"
proof -
  have r: "get_list [''top'' \<mapsto> [], ''rising'' \<mapsto> []] ''rising'' = []"
    and t: "get_list [''top'' \<mapsto> [], ''rising'' \<mapsto> []] ''top'' = []"
    by (simp_all add: get_list_def)
  show ?thesis
    using r t generate_viral_angle_bypass [OF r t refl, of blank_model decode_null]
    by simp
qed

end
